theory Spec2Isabelle
  imports Complex_Main
begin

section \<open>The rover control page (script.js) as a state machine\<close>

text \<open>
  script.js keeps four global variables (\<open>roverIP\<close>, \<open>lastCommand\<close>, \<open>failCount\<close>,
  \<open>currentMode\<close>), writes to a handful of DOM elements and to \<open>localStorage\<close>, and talks
  to the rover with \<open>fetch\<close>. The model is explicit state passing: one record holds the
  globals, the storage, the DOM contents the script writes, and a log of every URL handed
  to \<open>fetch\<close>. What the network answers is an argument of each operation.

  Modes and directions are JavaScript strings in the source and stay strings here: the
  script compares them with \<open>===\<close> and never checks that they belong to a fixed set.

  An \<open>async\<close> function runs synchronously up to its first \<open>await\<close>; the rest runs when
  the awaited promise settles. Each such function is therefore split at its \<open>await\<close>
  (\<open>_begin\<close> / \<open>_resume\<close>), and a caller that does not await the call continues with its
  own statements before the callee is resumed. While a handler awaits an answer the browser
  runs other handlers: key presses, clicks, the poll timer, answers to earlier requests.
  The functions named like the source's (\<open>move\<close>, \<open>switchMode\<close>, \<open>fetchStatus\<close>,
  \<open>emergencyStop\<close>) put the pieces of one handler together with nothing in between: they
  describe a handler that is not disturbed while it waits. The pieces themselves take the
  page as it is when they start, and the section on turns of the event loop runs them in
  any order. \<open>console\<close> output and the timers that undo a visual effect (button highlight,
  background flash) are not part of the state. Every element looked up in lines 8-21 is
  taken to exist in the page.
\<close>

subsection \<open>What the network answers\<close>

text \<open>
  A \<open>fetch\<close> promise either rejects (network error, or the abort of
  \<open>AbortSignal.timeout(3000)\<close>) or resolves with a response whose \<open>ok\<close> flag says whether
  the status was 2xx.
\<close>

datatype outcome = Rejected | Resolved bool

text \<open>
  A property of the parsed \<open>/status\<close> body: not there (\<open>undefined\<close>), \<open>null\<close>, or a
  value of the type the rover documents for it. JSON numbers are taken at their exact
  value; the script only compares them with the constants 0, 15 and 35.
\<close>

datatype 'a field = Absent | Null | Val 'a

record status_json =
  battery :: "rat field"
  rssi :: "int field"
  command :: "string field"
  distance :: "rat field"
  mode :: "string field"

text \<open>
  \<open>response.json()\<close> rejects on a body that is not JSON; a JSON value that is not an
  object makes \<open>data.battery.toFixed\<close> throw just like an object without a numeric
  \<open>battery\<close>. \<open>Unparsable\<close> stands for both.
\<close>

datatype body = Unparsable | Json status_json

datatype status_outcome = StatusRejected | StatusResolved bool body

subsection \<open>The page state\<close>

text \<open>Texts the script writes that are not plain ASCII or that embed a number.\<close>

datatype status_text = StatusInitial | Connecting | Connected | Disconnected

datatype signal_text = SignalInitial | SignalDbm "int field" | SignalBlank

datatype battery_text = BatteryInitial | BatteryV rat

datatype distance_text = DistanceInitial | DistanceCm rat | DistanceDashes

record state =
  roverIP :: string
  lastCommand :: string
  failCount :: nat
  currentMode :: string
  localStorage :: "string \<rightharpoonup> string"
  requests :: "string list"
  alerts :: "string list"
  ipInput :: string
  statusEl_text :: status_text
  statusEl_className :: string
  signalEl :: signal_text
  batteryEl :: battery_text
  actionEl :: string
  activeModeEl :: string
  modeDescEl :: "string option"
  modeBtn_active :: string
  manualControls :: string
  speedControl :: string
  keyboardHelp :: string
  autoDisplay :: string
  distanceRow :: string
  distanceValue :: distance_text
  distanceValue_color :: string
  distanceInfo :: distance_text
  speedDisplay :: string
  highlighted :: string

text \<open>
  \<open>requests\<close> lists the URLs passed to \<open>fetch\<close>, oldest first; \<open>alerts\<close> the messages
  shown with \<open>alert\<close>. \<open>modeBtn_active\<close> is the \<open>data-mode\<close> value whose buttons carry
  the class \<open>active\<close>; the five fields after it are \<open>style.display\<close> values.
  \<open>highlighted\<close> is the direction last passed to \<open>highlightButton\<close>. \<open>modeDescEl\<close> holds
  the description when it is one of the two of lines 24-27, and \<open>None\<close> for any other
  content.
\<close>

definition url :: "state \<Rightarrow> string \<Rightarrow> string" where
  "url s path = ''http://'' @ roverIP s @ path"

definition fetch :: "string \<Rightarrow> state \<Rightarrow> state" where
  "fetch u s = s\<lparr>requests := requests s @ [u]\<rparr>"

subsection \<open>Connectivity (updateConnectionStatus, lines 241-254)\<close>

definition updateConnectionStatus :: "bool \<Rightarrow> state \<Rightarrow> state" where
  "updateConnectionStatus conn s =
     (if conn then
        s\<lparr>statusEl_text := Connected, statusEl_className := ''status connected'',
          failCount := 0\<rparr>
      else
        (let s' = s\<lparr>failCount := failCount s + 1\<rparr> in
         if failCount s' > 3 then
           s'\<lparr>statusEl_text := Disconnected,
              statusEl_className := ''status disconnected'',
              signalEl := SignalBlank\<rparr>
         else s'))"

subsection \<open>Manual control (move, lines 134-164; updateSpeed, lines 166-177)\<close>

definition highlightButton :: "string \<Rightarrow> state \<Rightarrow> state" where
  "highlightButton direction s = s\<lparr>highlighted := direction\<rparr>"

text \<open>The toggle of lines 141-143: the direction that is really sent.\<close>

definition toggled :: "string \<Rightarrow> state \<Rightarrow> string" where
  "toggled direction s =
     (if lastCommand s = direction \<and> direction \<noteq> ''stop'' then ''stop'' else direction)"

text \<open>Lines 140-155, after the mode guard and up to the \<open>await\<close>.\<close>

definition move_begin :: "string \<Rightarrow> state \<Rightarrow> state" where
  "move_begin direction s =
     (let d = toggled direction s;
          s1 = s\<lparr>lastCommand := d, actionEl := d\<rparr>;
          s2 = highlightButton d s1
      in fetch (url s2 (''/action?go='' @ d)) s2)"

text \<open>Lines 157-163: a response that is not \<open>ok\<close> changes nothing.\<close>

definition move_resume :: "outcome \<Rightarrow> state \<Rightarrow> state" where
  "move_resume ao s =
     (case ao of
        Rejected \<Rightarrow> updateConnectionStatus False s
      | Resolved ok \<Rightarrow> (if ok then updateConnectionStatus True s else s))"

definition move :: "string \<Rightarrow> outcome \<Rightarrow> state \<Rightarrow> state" where
  "move direction ao s =
     (if currentMode s \<noteq> ''manual'' then s
      else move_resume ao (move_begin direction s))"

definition updateSpeed :: "string \<Rightarrow> outcome \<Rightarrow> state \<Rightarrow> state" where
  "updateSpeed v so s =
     (let s1 = s\<lparr>speedDisplay := v\<rparr>
      in fetch (url s1 (''/speed?val='' @ v)) s1)"

subsection \<open>Mode switching (switchMode, lines 73-103; updateModeUI, lines 105-130)\<close>

definition modeDescriptions :: "string \<rightharpoonup> string" where
  "modeDescriptions =
     [''manual'' \<mapsto>
        ''<strong>Manual Mode:</strong> Control the rover with buttons or keyboard'',
      ''autonomous'' \<mapsto>
        ''<strong>Autonomous Mode:</strong> Rover avoids obstacles automatically using ultrasonic sensor'']"

definition updateModeUI :: "string \<Rightarrow> state \<Rightarrow> state" where
  "updateModeUI m s =
     (let s1 = s\<lparr>modeBtn_active := m\<rparr> in
      if m = ''manual'' then
        s1\<lparr>manualControls := ''grid'', speedControl := ''block'',
           keyboardHelp := ''block'', autoDisplay := ''none'', distanceRow := ''none''\<rparr>
      else
        s1\<lparr>manualControls := ''none'', speedControl := ''none'',
           keyboardHelp := ''none'', autoDisplay := ''block'', distanceRow := ''flex''\<rparr>)"

text \<open>
  Lines 74-91, up to the \<open>await\<close>. For a mode that is not a key of \<open>modeDescriptions\<close>
  line 81 writes the text \<open>undefined\<close>, or the text of a property every object inherits
  (for a mode such as \<open>toString\<close>); both are \<open>None\<close> here.
\<close>

definition switchMode_begin :: "string \<Rightarrow> state \<Rightarrow> state" where
  "switchMode_begin m s =
     (let s1 = s\<lparr>currentMode := m, localStorage := (localStorage s)(''controlMode'' \<mapsto> m)\<rparr>;
          s2 = updateModeUI m s1;
          s3 = s2\<lparr>modeDescEl := modeDescriptions m, activeModeEl := m\<rparr>
      in fetch (url s3 (''/mode?mode='' @ m)) s3)"

text \<open>
  Lines 93-102. The stop of line 97 stands inside the \<open>try\<close>, after the \<open>await\<close>: a
  rejected request jumps to the \<open>catch\<close>, which only logs. \<open>move\<close> is not awaited
  there, but nothing follows it in \<open>switchMode\<close>.
\<close>

definition switchMode_resume :: "string \<Rightarrow> outcome \<Rightarrow> outcome \<Rightarrow> state \<Rightarrow> state" where
  "switchMode_resume m mo ao s =
     (case mo of
        Rejected \<Rightarrow> s
      | Resolved ok \<Rightarrow> (if m = ''manual'' then move ''stop'' ao s else s))"

definition switchMode :: "string \<Rightarrow> outcome \<Rightarrow> outcome \<Rightarrow> state \<Rightarrow> state" where
  "switchMode m mo ao s = switchMode_resume m mo ao (switchMode_begin m s)"

subsection \<open>Emergency stop (lines 314-331)\<close>

text \<open>
  The two awaited calls in sequence, for a handler that nothing disturbs.
  \<open>await switchMode('manual')\<close> returns as soon as \<open>switchMode\<close> has issued its stop
  request, so the second stop request is issued before the first is answered;
  \<open>emergencyStop_event_order\<close> below shows that this order gives the same state.
\<close>

definition emergencyStop :: "outcome \<Rightarrow> outcome \<Rightarrow> outcome \<Rightarrow> state \<Rightarrow> state" where
  "emergencyStop mo ao1 ao2 s = move ''stop'' ao2 (switchMode ''manual'' mo ao1 s)"

subsection \<open>Telemetry (fetchStatus, lines 195-239)\<close>

definition distanceColor :: "rat \<Rightarrow> string" where
  "distanceColor d =
     (if d < 15 then ''#f56565'' else if d < 35 then ''#f6ad55'' else ''#48bb78'')"

text \<open>Lines 211-226.\<close>

definition showDistance :: "rat field \<Rightarrow> state \<Rightarrow> state" where
  "showDistance f s =
     (case f of
        Val d \<Rightarrow>
          (let dist = (if d > 0 then DistanceCm d else DistanceDashes);
               s1 = s\<lparr>distanceValue := dist, distanceInfo := dist\<rparr>
           in if currentMode s1 = ''autonomous'' \<and> d > 0
              then s1\<lparr>distanceValue_color := distanceColor d\<rparr> else s1)
      | _ \<Rightarrow> s)"

text \<open>\<open>data.mode && data.mode !== currentMode\<close>: the empty string is falsy.\<close>

definition modeToSync :: "string field \<Rightarrow> state \<Rightarrow> string option" where
  "modeToSync f s =
     (case f of
        Val m \<Rightarrow> (if m \<noteq> [] \<and> m \<noteq> currentMode s then Some m else None)
      | _ \<Rightarrow> None)"

text \<open>
  Lines 202-237: what \<open>fetchStatus\<close> itself does once the request has settled. The second
  component is the mode of the \<open>switchMode\<close> call of line 230, which is not awaited: its
  part before the \<open>await\<close> runs at once, line 233 follows, and the rest of \<open>switchMode\<close>
  runs after \<open>fetchStatus\<close> has finished. \<open>toFixed\<close> on a \<open>battery\<close> that is no number
  throws before anything is written, and the \<open>catch\<close> counts a failure. Assigning
  \<open>undefined\<close> or \<open>null\<close> to \<open>textContent\<close> empties the element.
\<close>

definition fetchStatus_settled :: "status_outcome \<Rightarrow> state \<Rightarrow> state \<times> string option" where
  "fetchStatus_settled so s =
     (case so of
        StatusRejected \<Rightarrow> (updateConnectionStatus False s, None)
      | StatusResolved ok b \<Rightarrow>
          (if \<not> ok then (s, None)
           else (case b of
              Unparsable \<Rightarrow> (updateConnectionStatus False s, None)
            | Json data \<Rightarrow>
               (case battery data of
                  Val v \<Rightarrow>
                    (let s1 = s\<lparr>batteryEl := BatteryV v, signalEl := SignalDbm (rssi data),
                                actionEl := (case command data of Val c \<Rightarrow> c | _ \<Rightarrow> [])\<rparr>;
                         s2 = showDistance (distance data) s1
                     in (case modeToSync (mode data) s2 of
                           Some m \<Rightarrow> (updateConnectionStatus True (switchMode_begin m s2), Some m)
                         | None \<Rightarrow> (updateConnectionStatus True s2, None)))
                | _ \<Rightarrow> (updateConnectionStatus False s, None)))))"

definition fetchStatus :: "status_outcome \<Rightarrow> outcome \<Rightarrow> outcome \<Rightarrow> state \<Rightarrow> state" where
  "fetchStatus so mo ao s =
     (case fetchStatus_settled so (fetch (url s ''/status'') s) of
        (s', None) \<Rightarrow> s'
      | (s', Some m) \<Rightarrow> switchMode_resume m mo ao s')"

subsection \<open>Connecting (connectRover, lines 54-69)\<close>

text \<open>
  \<open>String.prototype.trim\<close> on strings whose code units are below 256: tab, line feed,
  vertical tab, form feed, carriage return, space and no-break space are stripped from
  both ends.
\<close>

definition isWhiteSpace :: "char \<Rightarrow> bool" where
  "isWhiteSpace c =
     (c = CHR 0x09 \<or> c = CHR 0x0A \<or> c = CHR 0x0B \<or> c = CHR 0x0C \<or> c = CHR 0x0D
      \<or> c = CHR 0x20 \<or> c = CHR 0xA0)"

definition trim :: "string \<Rightarrow> string" where
  "trim v = rev (dropWhile isWhiteSpace (rev (dropWhile isWhiteSpace v)))"

text \<open>Line 55 assigns the global before line 57 tests it.\<close>

definition connectRover :: "status_outcome \<Rightarrow> outcome \<Rightarrow> outcome \<Rightarrow> state \<Rightarrow> state" where
  "connectRover so mo ao s =
     (let s1 = s\<lparr>roverIP := trim (ipInput s)\<rparr> in
      if roverIP s1 = [] then s1\<lparr>alerts := alerts s1 @ [''Please enter a valid IP address!'']\<rparr>
      else
        (let s2 = s1\<lparr>localStorage := (localStorage s1)(''roverIP'' \<mapsto> roverIP s1)\<rparr>;
             s3 = s2\<lparr>statusEl_text := Connecting, statusEl_className := ''status''\<rparr>
         in fetchStatus so mo ao s3))"

subsection \<open>Start-up (lines 1-5 and 31-50)\<close>

text \<open>
  \<open>script_globals\<close> takes the page as the browser loaded it (DOM and storage) and gives
  the four variables their initial values; \<open>domContentLoaded\<close> is the handler of lines
  31-50. The \<open>switchMode\<close> call of line 42 is not awaited; the handler's remaining
  statements register the poll timer and the key handler and do not touch the state.
\<close>

definition script_globals :: "state \<Rightarrow> state" where
  "script_globals page =
     page\<lparr>roverIP := ''192.168.1.100'', lastCommand := ''stop'', failCount := 0,
          currentMode := ''manual'', requests := [], alerts := []\<rparr>"

definition domContentLoaded :: "outcome \<Rightarrow> outcome \<Rightarrow> state \<Rightarrow> state" where
  "domContentLoaded mo ao s =
     (let s1 = (case localStorage s ''roverIP'' of
                  Some savedIP \<Rightarrow>
                    (if savedIP \<noteq> [] then s\<lparr>roverIP := savedIP, ipInput := savedIP\<rparr> else s)
                | None \<Rightarrow> s)
      in case localStorage s1 ''controlMode'' of
           Some savedMode \<Rightarrow>
             (if savedMode \<noteq> [] \<and> savedMode = ''autonomous''
              then switchMode savedMode mo ao s1 else s1)
         | None \<Rightarrow> s1)"

definition startup :: "outcome \<Rightarrow> outcome \<Rightarrow> state \<Rightarrow> state" where
  "startup mo ao page = domContentLoaded mo ao (script_globals page)"

subsection \<open>Keyboard (setupKeyboardControls, lines 258-310)\<close>

text \<open>\<open>toLowerCase\<close> on code units below 256.\<close>

definition lowerChar :: "char \<Rightarrow> char" where
  "lowerChar c =
     (let n = (of_char c :: nat) in
      if (65 \<le> n \<and> n \<le> 90) \<or> (192 \<le> n \<and> n \<le> 222 \<and> n \<noteq> 215)
      then char_of (n + 32) else c)"

definition toLowerCase :: "string \<Rightarrow> string" where
  "toLowerCase k = map lowerChar k"

definition keydown ::
  "string \<Rightarrow> bool \<Rightarrow> outcome \<Rightarrow> outcome \<Rightarrow> outcome \<Rightarrow> state \<Rightarrow> state" where
  "keydown k ctrlKey mo ao1 ao2 s =
     (if k = ''Escape'' then emergencyStop mo ao1 ao2 s
      else if toLowerCase k = ''m'' then switchMode ''manual'' mo ao1 s
      else if toLowerCase k = ''a'' \<and> ctrlKey then switchMode ''autonomous'' mo ao1 s
      else if currentMode s \<noteq> ''manual'' then s
      else if toLowerCase k = ''w'' \<or> toLowerCase k = ''arrowup'' then move ''forward'' ao1 s
      else if toLowerCase k = ''s'' \<or> toLowerCase k = ''arrowdown'' then move ''backward'' ao1 s
      else if toLowerCase k = ''a'' \<or> toLowerCase k = ''arrowleft'' then move ''left'' ao1 s
      else if toLowerCase k = ''d'' \<or> toLowerCase k = ''arrowright'' then move ''right'' ao1 s
      else if toLowerCase k = '' '' then move ''stop'' ao1 s
      else s)"

subsection \<open>Runs of the page\<close>

text \<open>
  Everything that can happen after start-up: the operator edits the address field, clicks
  a control (the functions exported in lines 335-338), presses a key, or the interval timer
  of line 46 fires. Each event carries what the network answers to the requests it causes.
\<close>

datatype event =
    EditAddress string
  | ClickConnect status_outcome outcome outcome
  | CallSwitchMode string outcome outcome
  | CallMove string outcome
  | CallUpdateSpeed string outcome
  | Poll status_outcome outcome outcome
  | KeyDown string bool outcome outcome outcome

fun step :: "event \<Rightarrow> state \<Rightarrow> state" where
  "step (EditAddress v) s = s\<lparr>ipInput := v\<rparr>"
| "step (ClickConnect so mo ao) s = connectRover so mo ao s"
| "step (CallSwitchMode m mo ao) s = switchMode m mo ao s"
| "step (CallMove d ao) s = move d ao s"
| "step (CallUpdateSpeed v so) s = updateSpeed v so s"
| "step (Poll so mo ao) s = fetchStatus so mo ao s"
| "step (KeyDown k ctrlKey mo ao1 ao2) s = keydown k ctrlKey mo ao1 ao2 s"

fun run :: "event list \<Rightarrow> state \<Rightarrow> state" where
  "run [] s = s"
| "run (e # es) s = run es (step e s)"

subsection \<open>Turns of the event loop\<close>

text \<open>
  JavaScript runs a handler without interruption from one \<open>await\<close> to the next; between
  two such pieces anything else may run. A turn is one such piece. The pieces that start a
  handler run up to its first \<open>await\<close>; the pieces that handle an answer start from the
  page as it is when the answer arrives, whatever has happened to it since the request.
  Sequences of turns contain every order in which the browser can run the handlers (and
  orders it cannot, such as an answer without a request).
\<close>

text \<open>Lines 134-155: \<open>move\<close> up to its \<open>await\<close>, guard included.\<close>

definition move_issue :: "string \<Rightarrow> state \<Rightarrow> state" where
  "move_issue direction s =
     (if currentMode s \<noteq> ''manual'' then s else move_begin direction s)"

text \<open>
  Lines 93-102 up to the \<open>await\<close> inside \<open>move\<close>: \<open>switchMode(m)\<close> when its \<open>/mode\<close>
  request settles, on the page \<open>t\<close> of that moment. Line 96 tests the parameter, line 135
  the global.
\<close>

definition switchMode_settled :: "string \<Rightarrow> outcome \<Rightarrow> state \<Rightarrow> state" where
  "switchMode_settled m mo t =
     (case mo of
        Rejected \<Rightarrow> t
      | Resolved ok \<Rightarrow> (if m = ''manual'' then move_issue ''stop'' t else t))"

text \<open>
  \<open>emergencyStop\<close> up to the \<open>await\<close> of line 88, and from there to the \<open>await\<close> inside
  the \<open>move\<close> of line 321. When \<open>switchMode\<close> returns, the \<open>await\<close> of line 318 continues
  before the browser handles any other event, so line 321 follows in the same turn.
\<close>

definition emergencyStop_begin :: "state \<Rightarrow> state" where
  "emergencyStop_begin s = switchMode_begin ''manual'' s"

definition emergencyStop_settled :: "outcome \<Rightarrow> state \<Rightarrow> state" where
  "emergencyStop_settled mo t = move_issue ''stop'' (switchMode_settled ''manual'' mo t)"

text \<open>Lines 54-68 and the request of line 197.\<close>

definition connectRover_issue :: "state \<Rightarrow> state" where
  "connectRover_issue s =
     (let s1 = s\<lparr>roverIP := trim (ipInput s)\<rparr> in
      if roverIP s1 = [] then s1\<lparr>alerts := alerts s1 @ [''Please enter a valid IP address!'']\<rparr>
      else
        (let s2 = s1\<lparr>localStorage := (localStorage s1)(''roverIP'' \<mapsto> roverIP s1)\<rparr>;
             s3 = s2\<lparr>statusEl_text := Connecting, statusEl_className := ''status''\<rparr>
         in fetch (url s3 ''/status'') s3))"

text \<open>The key handler of lines 259-309, each call up to its first \<open>await\<close>.\<close>

definition keydown_issue :: "string \<Rightarrow> bool \<Rightarrow> state \<Rightarrow> state" where
  "keydown_issue k ctrlKey s =
     (if k = ''Escape'' then emergencyStop_begin s
      else if toLowerCase k = ''m'' then switchMode_begin ''manual'' s
      else if toLowerCase k = ''a'' \<and> ctrlKey then switchMode_begin ''autonomous'' s
      else if currentMode s \<noteq> ''manual'' then s
      else if toLowerCase k = ''w'' \<or> toLowerCase k = ''arrowup'' then move_issue ''forward'' s
      else if toLowerCase k = ''s'' \<or> toLowerCase k = ''arrowdown'' then move_issue ''backward'' s
      else if toLowerCase k = ''a'' \<or> toLowerCase k = ''arrowleft'' then move_issue ''left'' s
      else if toLowerCase k = ''d'' \<or> toLowerCase k = ''arrowright'' then move_issue ''right'' s
      else if toLowerCase k = '' '' then move_issue ''stop'' s
      else s)"

text \<open>
  The turns. The first seven start a handler; the others handle the answer to a
  \<open>/status\<close> request, to the \<open>/mode\<close> request of a \<open>switchMode(m)\<close> called by a control,
  a key or a poll, to the \<open>/mode\<close> request of \<open>emergencyStop\<close>, and to an \<open>/action\<close>
  request. The answer to a \<open>/speed\<close> request changes nothing whenever it arrives, so
  \<open>SpeedCalled\<close> carries it.
\<close>

datatype turn =
    FieldEdited string
  | ConnectClicked
  | SwitchModeCalled string
  | MoveCalled string
  | SpeedCalled string outcome
  | TimerFired
  | KeyPressed string bool
  | StatusAnswered status_outcome
  | ModeAnswered string outcome
  | EmergencyModeAnswered outcome
  | ActionAnswered outcome

fun handle :: "turn \<Rightarrow> state \<Rightarrow> state" where
  "handle (FieldEdited v) s = s\<lparr>ipInput := v\<rparr>"
| "handle ConnectClicked s = connectRover_issue s"
| "handle (SwitchModeCalled m) s = switchMode_begin m s"
| "handle (MoveCalled d) s = move_issue d s"
| "handle (SpeedCalled v so) s = updateSpeed v so s"
| "handle TimerFired s = fetch (url s ''/status'') s"
| "handle (KeyPressed k ctrlKey) s = keydown_issue k ctrlKey s"
| "handle (StatusAnswered so) s = fst (fetchStatus_settled so s)"
| "handle (ModeAnswered m mo) s = switchMode_settled m mo s"
| "handle (EmergencyModeAnswered mo) s = emergencyStop_settled mo s"
| "handle (ActionAnswered ao) s = move_resume ao s"

fun handle_all :: "turn list \<Rightarrow> state \<Rightarrow> state" where
  "handle_all [] s = s"
| "handle_all (g # gs) s = handle_all gs (handle g s)"

text \<open>
  What an answer means for the connectivity display: a failure is a rejected \<open>/status\<close> or
  \<open>/action\<close> request or a 2xx \<open>/status\<close> answer without a usable body, a success is any
  other 2xx answer to one of the two. \<open>streak gs n\<close> is the number of failures since the
  last success along \<open>gs\<close>, starting from \<open>n\<close>.
\<close>

datatype verdict = Failure | Success | Neither

fun counts_as :: "turn \<Rightarrow> verdict" where
  "counts_as (ActionAnswered Rejected) = Failure"
| "counts_as (ActionAnswered (Resolved ok)) = (if ok then Success else Neither)"
| "counts_as (StatusAnswered StatusRejected) = Failure"
| "counts_as (StatusAnswered (StatusResolved ok b)) =
     (if \<not> ok then Neither
      else (case b of
              Unparsable \<Rightarrow> Failure
            | Json j \<Rightarrow> (case battery j of Val v \<Rightarrow> Success | _ \<Rightarrow> Failure)))"
| "counts_as g = Neither"

fun streak :: "turn list \<Rightarrow> nat \<Rightarrow> nat" where
  "streak [] n = n"
| "streak (g # gs) n =
     streak gs (case counts_as g of Failure \<Rightarrow> Suc n | Success \<Rightarrow> 0 | Neither \<Rightarrow> n)"

text \<open>A page as the browser might hand it to the script, for concrete evaluations.\<close>

definition blank_page :: state where
  "blank_page =
     \<lparr>roverIP = [], lastCommand = [], failCount = 0, currentMode = [],
      localStorage = Map.empty, requests = [], alerts = [], ipInput = [],
      statusEl_text = StatusInitial, statusEl_className = ''status'',
      signalEl = SignalInitial, batteryEl = BatteryInitial, actionEl = [],
      activeModeEl = [], modeDescEl = None, modeBtn_active = [],
      manualControls = [], speedControl = [], keyboardHelp = [], autoDisplay = [],
      distanceRow = [], distanceValue = DistanceInitial, distanceValue_color = [],
      distanceInfo = DistanceInitial, speedDisplay = [], highlighted = []\<rparr>"

definition fresh :: state where
  "fresh = startup Rejected Rejected blank_page"

definition reading :: "rat field \<Rightarrow> status_json" where
  "reading d = \<lparr>battery = Val (37 / 5), rssi = Val (- 60), command = Val ''stop'',
                distance = d, mode = Absent\<rparr>"

definition idle_report :: status_json where
  "idle_report = \<lparr>battery = Val (37 / 5), rssi = Val (- 60), command = Val ''stop'',
                  distance = Null, mode = Val ''idle''\<rparr>"

definition down :: state where
  "down = (updateConnectionStatus False ^^ 4) fresh"

definition steady :: state where
  "steady = updateConnectionStatus True fresh"

definition cruising :: state where
  "cruising = switchMode ''autonomous'' (Resolved True) Rejected fresh"

definition auto_report :: status_json where
  "auto_report = \<lparr>battery = Val (37 / 5), rssi = Val (- 60), command = Val ''forward'',
                  distance = Val 50, mode = Val ''autonomous''\<rparr>"

subsection \<open>Well-behaved surroundings\<close>

text \<open>
  The two mode names the page and the rover agree on, a \<open>/status\<close> answer that reports one
  of them (or none), and an event that hands the script no other mode. These are
  conditions on the environment, used as hypotheses; the script checks none of them.
\<close>

definition validMode :: "string \<Rightarrow> bool" where
  "validMode m = (m = ''manual'' \<or> m = ''autonomous'')"

definition reportsValidMode :: "status_outcome \<Rightarrow> bool" where
  "reportsValidMode so =
     (case so of
        StatusResolved ok (Json j) \<Rightarrow>
          (case mode j of Val m \<Rightarrow> m = [] \<or> validMode m | _ \<Rightarrow> True)
      | _ \<Rightarrow> True)"

fun event_ok :: "event \<Rightarrow> bool" where
  "event_ok (CallSwitchMode m mo ao) = validMode m"
| "event_ok (Poll so mo ao) = reportsValidMode so"
| "event_ok (ClickConnect so mo ao) = reportsValidMode so"
| "event_ok e = True"

section \<open>What each step leaves alone, and what it writes\<close>

lemma updateConnectionStatus_frame:
  "roverIP (updateConnectionStatus c s) = roverIP s"
  "lastCommand (updateConnectionStatus c s) = lastCommand s"
  "currentMode (updateConnectionStatus c s) = currentMode s"
  "requests (updateConnectionStatus c s) = requests s"
  "alerts (updateConnectionStatus c s) = alerts s"
  "localStorage (updateConnectionStatus c s) = localStorage s"
  "batteryEl (updateConnectionStatus c s) = batteryEl s"
  "actionEl (updateConnectionStatus c s) = actionEl s"
  "distanceValue (updateConnectionStatus c s) = distanceValue s"
  "distanceInfo (updateConnectionStatus c s) = distanceInfo s"
  "distanceValue_color (updateConnectionStatus c s) = distanceValue_color s"
  by (simp_all add: updateConnectionStatus_def Let_def)

lemma updateConnectionStatus_True:
  "failCount (updateConnectionStatus True s) = 0"
  "statusEl_text (updateConnectionStatus True s) = Connected"
  "statusEl_className (updateConnectionStatus True s) = ''status connected''"
  "signalEl (updateConnectionStatus True s) = signalEl s"
  by (simp_all add: updateConnectionStatus_def)

lemma updateConnectionStatus_False:
  "failCount (updateConnectionStatus False s) = failCount s + 1"
  "statusEl_text (updateConnectionStatus False s) =
     (if failCount s + 1 > 3 then Disconnected else statusEl_text s)"
  "statusEl_className (updateConnectionStatus False s) =
     (if failCount s + 1 > 3 then ''status disconnected'' else statusEl_className s)"
  "signalEl (updateConnectionStatus False s) =
     (if failCount s + 1 > 3 then SignalBlank else signalEl s)"
  by (simp_all add: updateConnectionStatus_def Let_def)

lemma fetch_frame:
  "roverIP (fetch u s) = roverIP s"
  "lastCommand (fetch u s) = lastCommand s"
  "currentMode (fetch u s) = currentMode s"
  "failCount (fetch u s) = failCount s"
  "requests (fetch u s) = requests s @ [u]"
  "statusEl_text (fetch u s) = statusEl_text s"
  "statusEl_className (fetch u s) = statusEl_className s"
  "signalEl (fetch u s) = signalEl s"
  "batteryEl (fetch u s) = batteryEl s"
  "actionEl (fetch u s) = actionEl s"
  "distanceValue (fetch u s) = distanceValue s"
  "distanceInfo (fetch u s) = distanceInfo s"
  "distanceValue_color (fetch u s) = distanceValue_color s"
  "alerts (fetch u s) = alerts s"
  "localStorage (fetch u s) = localStorage s"
  by (simp_all add: fetch_def)

lemma move_begin_frame:
  "roverIP (move_begin d s) = roverIP s"
  "currentMode (move_begin d s) = currentMode s"
  "failCount (move_begin d s) = failCount s"
  "statusEl_text (move_begin d s) = statusEl_text s"
  "statusEl_className (move_begin d s) = statusEl_className s"
  "signalEl (move_begin d s) = signalEl s"
  "batteryEl (move_begin d s) = batteryEl s"
  "distanceValue (move_begin d s) = distanceValue s"
  "distanceInfo (move_begin d s) = distanceInfo s"
  "distanceValue_color (move_begin d s) = distanceValue_color s"
  "alerts (move_begin d s) = alerts s"
  "localStorage (move_begin d s) = localStorage s"
  by (simp_all add: move_begin_def Let_def highlightButton_def fetch_def)

lemma move_begin_effect:
  "lastCommand (move_begin d s) = toggled d s"
  "actionEl (move_begin d s) = toggled d s"
  "requests (move_begin d s) =
     requests s @ [''http://'' @ roverIP s @ ''/action?go='' @ toggled d s]"
  by (simp_all add: move_begin_def Let_def highlightButton_def fetch_def url_def)

lemma move_resume_frame:
  "roverIP (move_resume ao s) = roverIP s"
  "lastCommand (move_resume ao s) = lastCommand s"
  "currentMode (move_resume ao s) = currentMode s"
  "requests (move_resume ao s) = requests s"
  "batteryEl (move_resume ao s) = batteryEl s"
  "actionEl (move_resume ao s) = actionEl s"
  "distanceValue (move_resume ao s) = distanceValue s"
  "distanceInfo (move_resume ao s) = distanceInfo s"
  "distanceValue_color (move_resume ao s) = distanceValue_color s"
  "alerts (move_resume ao s) = alerts s"
  "localStorage (move_resume ao s) = localStorage s"
  by (simp_all add: move_resume_def updateConnectionStatus_frame split: outcome.splits)

lemma move_resume_ok:
  "failCount (move_resume (Resolved True) s) = 0"
  "statusEl_text (move_resume (Resolved True) s) = Connected"
  "statusEl_className (move_resume (Resolved True) s) = ''status connected''"
  by (simp_all add: move_resume_def updateConnectionStatus_True)

lemma move_resume_not_ok: "move_resume (Resolved False) s = s"
  by (simp add: move_resume_def)

lemma move_frame:
  "roverIP (move d ao s) = roverIP s"
  "currentMode (move d ao s) = currentMode s"
  "batteryEl (move d ao s) = batteryEl s"
  "distanceValue (move d ao s) = distanceValue s"
  "distanceInfo (move d ao s) = distanceInfo s"
  "distanceValue_color (move d ao s) = distanceValue_color s"
  "alerts (move d ao s) = alerts s"
  "localStorage (move d ao s) = localStorage s"
  by (simp_all add: move_def move_resume_frame move_begin_frame)

lemma move_manual:
  assumes "currentMode s = ''manual''"
  shows "lastCommand (move d ao s) = toggled d s"
    and "requests (move d ao s) =
           requests s @ [''http://'' @ roverIP s @ ''/action?go='' @ toggled d s]"
  using assms by (simp_all add: move_def move_resume_frame move_begin_effect)

lemma updateSpeed_frame:
  "failCount (updateSpeed v so s) = failCount s"
  "statusEl_text (updateSpeed v so s) = statusEl_text s"
  "statusEl_className (updateSpeed v so s) = statusEl_className s"
  "currentMode (updateSpeed v so s) = currentMode s"
  by (simp_all add: updateSpeed_def Let_def fetch_def)

lemma switchMode_begin_frame:
  "roverIP (switchMode_begin m s) = roverIP s"
  "lastCommand (switchMode_begin m s) = lastCommand s"
  "failCount (switchMode_begin m s) = failCount s"
  "statusEl_text (switchMode_begin m s) = statusEl_text s"
  "statusEl_className (switchMode_begin m s) = statusEl_className s"
  "signalEl (switchMode_begin m s) = signalEl s"
  "batteryEl (switchMode_begin m s) = batteryEl s"
  "actionEl (switchMode_begin m s) = actionEl s"
  "distanceValue (switchMode_begin m s) = distanceValue s"
  "distanceInfo (switchMode_begin m s) = distanceInfo s"
  "distanceValue_color (switchMode_begin m s) = distanceValue_color s"
  "alerts (switchMode_begin m s) = alerts s"
  by (simp_all add: switchMode_begin_def Let_def updateModeUI_def fetch_def)

lemma switchMode_begin_effect:
  "currentMode (switchMode_begin m s) = m"
  "requests (switchMode_begin m s) =
     requests s @ [''http://'' @ roverIP s @ ''/mode?mode='' @ m]"
  "localStorage (switchMode_begin m s) = (localStorage s)(''controlMode'' \<mapsto> m)"
  by (simp_all add: switchMode_begin_def Let_def updateModeUI_def fetch_def url_def)

lemma switchMode_resume_frame:
  "roverIP (switchMode_resume m mo ao s) = roverIP s"
  "currentMode (switchMode_resume m mo ao s) = currentMode s"
  "batteryEl (switchMode_resume m mo ao s) = batteryEl s"
  "distanceValue (switchMode_resume m mo ao s) = distanceValue s"
  "distanceInfo (switchMode_resume m mo ao s) = distanceInfo s"
  "distanceValue_color (switchMode_resume m mo ao s) = distanceValue_color s"
  "alerts (switchMode_resume m mo ao s) = alerts s"
  "localStorage (switchMode_resume m mo ao s) = localStorage s"
  by (simp_all add: switchMode_resume_def move_frame split: outcome.splits)

lemma switchMode_currentMode: "currentMode (switchMode m mo ao s) = m"
  by (simp add: switchMode_def switchMode_resume_frame switchMode_begin_effect)

lemma switchMode_roverIP: "roverIP (switchMode m mo ao s) = roverIP s"
  by (simp add: switchMode_def switchMode_resume_frame switchMode_begin_frame)

lemma switchMode_manual_log:
  "requests (switchMode ''manual'' mo ao s) =
     requests s @ [''http://'' @ roverIP s @ ''/mode?mode=manual''] @
       (case mo of Rejected \<Rightarrow> []
        | Resolved ok \<Rightarrow> [''http://'' @ roverIP s @ ''/action?go=stop''])"
  by (simp add: switchMode_def switchMode_resume_def switchMode_begin_effect
      switchMode_begin_frame move_manual toggled_def split: outcome.splits)

lemma emergencyStop_currentMode: "currentMode (emergencyStop mo ao1 ao2 s) = ''manual''"
  by (simp add: emergencyStop_def move_frame switchMode_currentMode)

text \<open>
  Handling the answer to one movement request and issuing the next touch different parts
  of the state, so the order of the two does not matter.
\<close>

lemma move_begin_resume_commute:
  "move_begin d (move_resume ao s) = move_resume ao (move_begin d s)"
  by (cases ao)
     (simp_all add: move_begin_def move_resume_def updateConnectionStatus_def toggled_def
        highlightButton_def fetch_def url_def Let_def)

lemma emergencyStop_event_order:
  "emergencyStop (Resolved ok) ao1 ao2 s =
     move_resume ao2 (move_resume ao1
       (move_begin ''stop'' (move_begin ''stop'' (switchMode_begin ''manual'' s))))"
  "emergencyStop Rejected ao1 ao2 s =
     move_resume ao2 (move_begin ''stop'' (switchMode_begin ''manual'' s))"
  by (simp_all add: emergencyStop_def switchMode_def switchMode_resume_def move_def
      switchMode_begin_effect move_begin_frame move_resume_frame move_begin_resume_commute)

text \<open>The pieces of the handlers, and the undisturbed handlers in terms of them.\<close>

lemma move_issue_frame:
  "roverIP (move_issue d s) = roverIP s"
  "currentMode (move_issue d s) = currentMode s"
  "failCount (move_issue d s) = failCount s"
  "statusEl_text (move_issue d s) = statusEl_text s"
  "signalEl (move_issue d s) = signalEl s"
  by (simp_all add: move_issue_def move_begin_frame)

lemma move_issue_manual:
  assumes "currentMode s = ''manual''"
  shows "lastCommand (move_issue d s) = toggled d s"
    and "requests (move_issue d s) =
           requests s @ [''http://'' @ roverIP s @ ''/action?go='' @ toggled d s]"
  using assms by (simp_all add: move_issue_def move_begin_effect)

lemma move_by_turns:
  "move d ao s = (if currentMode s \<noteq> ''manual'' then s else move_resume ao (move_issue d s))"
  by (simp add: move_def move_issue_def)

lemma switchMode_settled_frame:
  "roverIP (switchMode_settled m mo t) = roverIP t"
  "currentMode (switchMode_settled m mo t) = currentMode t"
  "failCount (switchMode_settled m mo t) = failCount t"
  "statusEl_text (switchMode_settled m mo t) = statusEl_text t"
  "signalEl (switchMode_settled m mo t) = signalEl t"
  by (simp_all add: switchMode_settled_def move_issue_frame split: outcome.splits)

lemma switchMode_settled_log:
  "requests (switchMode_settled ''manual'' mo t) =
     requests t @
       (case mo of Rejected \<Rightarrow> []
        | Resolved ok \<Rightarrow>
            if currentMode t = ''manual'' then [''http://'' @ roverIP t @ ''/action?go=stop'']
            else [])"
  by (simp add: switchMode_settled_def move_issue_def move_begin_effect toggled_def
      split: outcome.splits)

lemma switchMode_resume_by_turns:
  "requests (switchMode_resume m mo ao t) = requests (switchMode_settled m mo t)"
  "currentMode (switchMode_resume m mo ao t) = currentMode (switchMode_settled m mo t)"
  "lastCommand (switchMode_resume m mo ao t) = lastCommand (switchMode_settled m mo t)"
  by (simp_all add: switchMode_resume_def switchMode_settled_def move_by_turns
      move_issue_def move_resume_frame split: outcome.splits)

lemma emergencyStop_settled_manual:
  assumes "currentMode t = ''manual''"
  shows "currentMode (emergencyStop_settled mo t) = ''manual''"
    and "lastCommand (emergencyStop_settled mo t) = ''stop''"
    and "requests (emergencyStop_settled mo t) =
      requests t @
        (case mo of Rejected \<Rightarrow> []
         | Resolved ok \<Rightarrow> [''http://'' @ roverIP t @ ''/action?go=stop'']) @
        [''http://'' @ roverIP t @ ''/action?go=stop'']"
proof -
  let ?t1 = "switchMode_settled ''manual'' mo t"
  have m: "currentMode ?t1 = ''manual''"
    using assms by (simp add: switchMode_settled_frame)
  show "currentMode (emergencyStop_settled mo t) = ''manual''"
    by (simp add: emergencyStop_settled_def move_issue_frame m)
  show "lastCommand (emergencyStop_settled mo t) = ''stop''"
    by (simp add: emergencyStop_settled_def move_issue_manual [OF m] toggled_def)
  show "requests (emergencyStop_settled mo t) =
      requests t @
        (case mo of Rejected \<Rightarrow> []
         | Resolved ok \<Rightarrow> [''http://'' @ roverIP t @ ''/action?go=stop'']) @
        [''http://'' @ roverIP t @ ''/action?go=stop'']"
    using assms
    by (simp add: emergencyStop_settled_def move_issue_manual [OF m] toggled_def
        switchMode_settled_log switchMode_settled_frame split: outcome.splits)
qed


lemma emergencyStop_settled_frame:
  "failCount (emergencyStop_settled mo t) = failCount t"
  "statusEl_text (emergencyStop_settled mo t) = statusEl_text t"
  "signalEl (emergencyStop_settled mo t) = signalEl t"
  by (simp_all add: emergencyStop_settled_def move_issue_frame switchMode_settled_frame)

lemma emergencyStop_undisturbed:
  "currentMode (emergencyStop mo ao1 ao2 s) = ''manual''"
  "lastCommand (emergencyStop mo ao1 ao2 s) = ''stop''"
  "requests (emergencyStop mo ao1 ao2 s) =
     requests s @ [''http://'' @ roverIP s @ ''/mode?mode=manual''] @
       (case mo of Rejected \<Rightarrow> []
        | Resolved ok \<Rightarrow> [''http://'' @ roverIP s @ ''/action?go=stop'']) @
       [''http://'' @ roverIP s @ ''/action?go=stop'']"
proof -
  let ?s1 = "switchMode ''manual'' mo ao1 s"
  have m: "currentMode ?s1 = ''manual''"
    by (rule switchMode_currentMode)
  have ip: "roverIP ?s1 = roverIP s"
    by (rule switchMode_roverIP)
  have rq: "requests ?s1 = requests s @ [''http://'' @ roverIP s @ ''/mode?mode=manual''] @
       (case mo of Rejected \<Rightarrow> []
        | Resolved ok \<Rightarrow> [''http://'' @ roverIP s @ ''/action?go=stop''])"
    by (rule switchMode_manual_log)
  show "currentMode (emergencyStop mo ao1 ao2 s) = ''manual''"
    "lastCommand (emergencyStop mo ao1 ao2 s) = ''stop''"
    "requests (emergencyStop mo ao1 ao2 s) =
     requests s @ [''http://'' @ roverIP s @ ''/mode?mode=manual''] @
       (case mo of Rejected \<Rightarrow> []
        | Resolved ok \<Rightarrow> [''http://'' @ roverIP s @ ''/action?go=stop'']) @
       [''http://'' @ roverIP s @ ''/action?go=stop'']"
    unfolding emergencyStop_def
    by (simp_all add: move_manual [OF m] move_frame m ip rq toggled_def)
qed

lemma emergencyStop_by_turns:
  "requests (emergencyStop mo ao1 ao2 s) =
     requests (emergencyStop_settled mo (emergencyStop_begin s))"
  "currentMode (emergencyStop mo ao1 ao2 s) =
     currentMode (emergencyStop_settled mo (emergencyStop_begin s))"
  "lastCommand (emergencyStop mo ao1 ao2 s) =
     lastCommand (emergencyStop_settled mo (emergencyStop_begin s))"
proof -
  have m: "currentMode (emergencyStop_begin s) = ''manual''"
    by (simp add: emergencyStop_begin_def switchMode_begin_effect)
  have b: "requests (emergencyStop_begin s) =
      requests s @ [''http://'' @ roverIP s @ ''/mode?mode=manual'']"
    "roverIP (emergencyStop_begin s) = roverIP s"
    by (simp_all add: emergencyStop_begin_def switchMode_begin_effect switchMode_begin_frame)
  show "requests (emergencyStop mo ao1 ao2 s) =
     requests (emergencyStop_settled mo (emergencyStop_begin s))"
    "currentMode (emergencyStop mo ao1 ao2 s) =
     currentMode (emergencyStop_settled mo (emergencyStop_begin s))"
    "lastCommand (emergencyStop mo ao1 ao2 s) =
     lastCommand (emergencyStop_settled mo (emergencyStop_begin s))"
    by (simp_all add: emergencyStop_settled_manual [OF m] emergencyStop_undisturbed b
        split: outcome.splits)
qed

lemma keydown_issue_frame:
  "failCount (keydown_issue k c s) = failCount s"
  "statusEl_text (keydown_issue k c s) = statusEl_text s"
  "signalEl (keydown_issue k c s) = signalEl s"
  by (simp_all add: keydown_issue_def emergencyStop_begin_def switchMode_begin_frame
      move_issue_frame)

lemma connectRover_issue_frame:
  "failCount (connectRover_issue s) = failCount s"
  "signalEl (connectRover_issue s) = signalEl s"
  "statusEl_text (connectRover_issue s) = statusEl_text s \<or>
   statusEl_text (connectRover_issue s) = Connecting"
  by (simp_all add: connectRover_issue_def Let_def fetch_def)

lemma updateSpeed_signalEl: "signalEl (updateSpeed v so s) = signalEl s"
  by (simp add: updateSpeed_def Let_def fetch_def)

lemma showDistance_frame:
  "roverIP (showDistance f s) = roverIP s"
  "lastCommand (showDistance f s) = lastCommand s"
  "currentMode (showDistance f s) = currentMode s"
  "failCount (showDistance f s) = failCount s"
  "requests (showDistance f s) = requests s"
  "statusEl_text (showDistance f s) = statusEl_text s"
  "signalEl (showDistance f s) = signalEl s"
  "batteryEl (showDistance f s) = batteryEl s"
  "actionEl (showDistance f s) = actionEl s"
  "alerts (showDistance f s) = alerts s"
  "localStorage (showDistance f s) = localStorage s"
  by (simp_all add: showDistance_def Let_def split: field.splits)

lemma showDistance_color:
  "distanceValue_color (showDistance f s) =
     (case f of
        Val d \<Rightarrow> if currentMode s = ''autonomous'' \<and> 0 < d then distanceColor d
                 else distanceValue_color s
      | _ \<Rightarrow> distanceValue_color s)"
  by (simp add: showDistance_def Let_def split: field.splits)

section \<open>Mode switching and manual commands\<close>

text \<open>
  C1 (as amended). From every prior state, also one whose mode is already manual,
  \<open>switchMode('manual')\<close> sets the mode to manual and requests \<open>/mode?mode=manual\<close>. When
  that request settles, on whatever page \<open>t\<close> the handlers that ran during the \<open>await\<close>
  have left, the request \<open>/action?go=stop\<close> follows exactly when the mode request resolved
  with a response, 2xx or not, and the mode of \<open>t\<close> is still manual. It is still manual
  when nothing disturbed the handler, which is the last part. When the mode request is
  rejected (network error or timeout) the \<open>catch\<close> of line 100 is reached before line 97,
  and when the mode has been changed meanwhile the guard of line 135 returns: no stop
  request is issued.
\<close>

theorem switchMode_manual_requests:
  "currentMode (switchMode_begin ''manual'' s) = ''manual'' \<and>
   requests (switchMode_begin ''manual'' s) =
     requests s @ [''http://'' @ roverIP s @ ''/mode?mode=manual''] \<and>
   requests (switchMode_settled ''manual'' mo t) =
     requests t @
       (case mo of Rejected \<Rightarrow> []
        | Resolved ok \<Rightarrow>
            if currentMode t = ''manual'' then [''http://'' @ roverIP t @ ''/action?go=stop'']
            else []) \<and>
   requests (switchMode ''manual'' mo ao s) =
     requests s @ [''http://'' @ roverIP s @ ''/mode?mode=manual''] @
       (case mo of Rejected \<Rightarrow> []
        | Resolved ok \<Rightarrow> [''http://'' @ roverIP s @ ''/action?go=stop''])"
  by (simp add: switchMode_begin_effect switchMode_settled_log switchMode_manual_log)

text \<open>
  A poll is sent while the mode request is pending and the mode stays manual: the stop
  follows the mode request's 404 answer.
\<close>

theorem switchMode_manual_requests_witness:
  "requests (switchMode_settled ''manual'' (Resolved False)
      (handle_all [TimerFired] (switchMode_begin ''manual'' fresh))) =
     [''http://192.168.1.100/mode?mode=manual'', ''http://192.168.1.100/status'',
      ''http://192.168.1.100/action?go=stop'']"
proof -
  let ?t = "handle_all [TimerFired] (switchMode_begin ''manual'' fresh)"
  have t: "currentMode ?t = ''manual''" "roverIP ?t = ''192.168.1.100''"
    "requests ?t = [''http://192.168.1.100/mode?mode=manual'', ''http://192.168.1.100/status'']"
    by code_simp+
  show ?thesis
    using switchMode_manual_requests [where mo = "Resolved False" and t = ?t]
    by (simp add: t del: handle_all.simps handle.simps)
qed

text \<open>
  The claim as the specification states it, "regardless of the outcome of the mode
  request", fails on a rejected mode request: the log then holds the mode request alone.
  It also fails when the mode request resolves after Ctrl+A has been pressed during the
  \<open>await\<close>: the mode is autonomous by then, and the log holds the two mode requests.
\<close>

theorem switchMode_manual_without_stop:
  "requests (switchMode ''manual'' Rejected (Resolved True) fresh) =
     [''http://192.168.1.100/mode?mode=manual''] \<and>
   requests (switchMode_resume ''manual'' (Resolved True) (Resolved True)
      (switchMode_begin ''autonomous'' (switchMode_begin ''manual'' fresh))) =
     [''http://192.168.1.100/mode?mode=manual'', ''http://192.168.1.100/mode?mode=autonomous'']"
  by code_simp

text \<open>
  C2 (as amended). In manual mode, \<open>move(d)\<close> sends the effective direction: stop when
  \<open>d\<close> equals \<open>lastCommand\<close> and is not stop, \<open>d\<close> otherwise. \<open>lastCommand\<close> already
  holds the effective direction when the request is issued (in \<open>move_begin\<close>, before any
  answer), and no answer changes it. Hence, for \<open>d\<close> other than stop and a prior
  \<open>lastCommand\<close> other than \<open>d\<close>, two consecutive calls \<open>move(d)\<close> send \<open>go=d\<close> and
  then \<open>go=stop\<close> and leave \<open>lastCommand\<close> at stop.
\<close>

theorem move_toggle:
  assumes "currentMode s = ''manual''"
  shows "lastCommand (move_begin d s) =
           (if lastCommand s = d \<and> d \<noteq> ''stop'' then ''stop'' else d) \<and>
         requests (move_begin d s) =
           requests s @ [''http://'' @ roverIP s @ ''/action?go='' @
              (if lastCommand s = d \<and> d \<noteq> ''stop'' then ''stop'' else d)] \<and>
         lastCommand (move d ao s) = lastCommand (move_begin d s) \<and>
         requests (move d ao s) = requests (move_begin d s) \<and>
         (d \<noteq> ''stop'' \<and> lastCommand s \<noteq> d \<longrightarrow>
            lastCommand (move d ao2 (move d ao s)) = ''stop'' \<and>
            requests (move d ao2 (move d ao s)) =
              requests s @ [''http://'' @ roverIP s @ ''/action?go='' @ d,
                            ''http://'' @ roverIP s @ ''/action?go=stop''])"
  using assms
  by (simp add: move_manual move_frame move_begin_effect toggled_def)

theorem move_toggle_witness:
  "lastCommand (move ''forward'' Rejected (move ''forward'' (Resolved True) fresh)) = ''stop'' \<and>
   requests (move ''forward'' Rejected (move ''forward'' (Resolved True) fresh)) =
     [''http://192.168.1.100/action?go=forward'', ''http://192.168.1.100/action?go=stop'']"
proof -
  have m: "currentMode fresh = ''manual''" by code_simp
  have l: "lastCommand fresh = ''stop''" by code_simp
  have r: "requests fresh = []" by code_simp
  have i: "roverIP fresh = ''192.168.1.100''" by code_simp
  show ?thesis
    using move_toggle [OF m, of "''forward''" "Resolved True" Rejected]
    by (simp add: l r i)
qed

text \<open>
  Without the condition on the prior \<open>lastCommand\<close> the claim fails: when the last
  command already is forward, the first \<open>move('forward')\<close> is the one turned into a stop,
  and the second sends forward again.
\<close>

theorem move_twice_from_same_direction:
  "currentMode (fresh\<lparr>lastCommand := ''forward''\<rparr>) = ''manual'' \<and>
   lastCommand (move ''forward'' (Resolved True)
      (move ''forward'' (Resolved True) (fresh\<lparr>lastCommand := ''forward''\<rparr>))) = ''forward'' \<and>
   requests (move ''forward'' (Resolved True)
      (move ''forward'' (Resolved True) (fresh\<lparr>lastCommand := ''forward''\<rparr>))) =
     [''http://192.168.1.100/action?go=stop'', ''http://192.168.1.100/action?go=forward'']"
  by code_simp




text \<open>The same run, turn by turn.\<close>

lemma emergencyStop_overtaken_turns:
  "requests (handle_all
      [TimerFired, KeyPressed ''Escape'' False,
       StatusAnswered (StatusResolved True (Json auto_report)),
       EmergencyModeAnswered (Resolved True), ModeAnswered ''autonomous'' (Resolved True)]
      cruising)
     = [''http://192.168.1.100/mode?mode=autonomous'', ''http://192.168.1.100/status'',
        ''http://192.168.1.100/mode?mode=manual'', ''http://192.168.1.100/mode?mode=autonomous'']"
  by code_simp

text \<open>
  C6. While the mode is not manual, \<open>move(d)\<close> returns at line 137: the whole state,
  request log and \<open>lastCommand\<close> included, is what it was, for every direction and
  whatever the network would have answered.
\<close>

theorem move_ignored_outside_manual:
  "currentMode s \<noteq> ''manual'' \<Longrightarrow> move d ao s = s"
  by (simp add: move_def)

theorem move_ignored_outside_manual_witness:
  "move ''forward'' (Resolved True) (switchMode ''autonomous'' (Resolved True) Rejected fresh) =
     switchMode ''autonomous'' (Resolved True) Rejected fresh"
proof -
  have "currentMode (switchMode ''autonomous'' (Resolved True) Rejected fresh) \<noteq> ''manual''"
    by (simp add: switchMode_currentMode)
  then show ?thesis
    by (rule move_ignored_outside_manual)
qed

section \<open>Connectivity\<close>

lemma settled_success:
  assumes "battery j = Val b"
  shows "failCount (fst (fetchStatus_settled (StatusResolved True (Json j)) s)) = 0"
    and "statusEl_text (fst (fetchStatus_settled (StatusResolved True (Json j)) s)) = Connected"
    and "statusEl_className (fst (fetchStatus_settled (StatusResolved True (Json j)) s)) =
           ''status connected''"
    and "batteryEl (fst (fetchStatus_settled (StatusResolved True (Json j)) s)) = BatteryV b"
    and "signalEl (fst (fetchStatus_settled (StatusResolved True (Json j)) s)) =
           SignalDbm (rssi j)"
  using assms
  by (simp_all add: fetchStatus_settled_def Let_def updateConnectionStatus_True
      updateConnectionStatus_frame switchMode_begin_frame showDistance_frame
      split: option.splits)

lemma switchMode_resume_connectivity:
  assumes "ao \<noteq> Rejected" "failCount s = 0" "statusEl_text s = Connected"
  shows "failCount (switchMode_resume m mo ao s) = 0 \<and>
         statusEl_text (switchMode_resume m mo ao s) = Connected"
  using assms
  by (cases ao; cases mo)
     (auto simp add: switchMode_resume_def move_def move_resume_def move_begin_frame
        updateConnectionStatus_True)

lemma fetchStatus_success_connectivity:
  assumes "battery j = Val b" "ao \<noteq> Rejected"
  shows "failCount (fetchStatus (StatusResolved True (Json j)) mo ao s) = 0 \<and>
         statusEl_text (fetchStatus (StatusResolved True (Json j)) mo ao s) = Connected"
proof -
  let ?r = "fetchStatus_settled (StatusResolved True (Json j)) (fetch (url s ''/status'') s)"
  have a: "failCount (fst ?r) = 0" "statusEl_text (fst ?r) = Connected"
    using settled_success [OF assms(1)] by simp_all
  show ?thesis
    unfolding fetchStatus_def
    by (cases ?r; cases "snd ?r")
       (use a switchMode_resume_connectivity [OF assms(2) a] in auto)
qed

text \<open>
  C4 (as amended). A movement command answered 2xx and a telemetry poll answered 2xx with
  a numeric \<open>battery\<close> set the display to Connected and the failure count to 0, from every
  state, a disconnected one included. For the poll this is the state when \<open>fetchStatus\<close>
  itself has finished, and also the state after the mode reconciliation it may have
  started, unless the stop command of that reconciliation is rejected. The speed request
  and the mode request never touch the display or the count, whatever they are answered:
  after a switch to manual only the answer to the follow-up stop command can.
\<close>

theorem success_resets_failures:
  "(currentMode s = ''manual'' \<longrightarrow>
      failCount (move d (Resolved True) s) = 0 \<and>
      statusEl_text (move d (Resolved True) s) = Connected) \<and>
   (battery j = Val b \<longrightarrow>
      failCount (fst (fetchStatus_settled (StatusResolved True (Json j)) s)) = 0 \<and>
      statusEl_text (fst (fetchStatus_settled (StatusResolved True (Json j)) s)) = Connected) \<and>
   (battery j = Val b \<and> ao \<noteq> Rejected \<longrightarrow>
      failCount (fetchStatus (StatusResolved True (Json j)) mo ao s) = 0 \<and>
      statusEl_text (fetchStatus (StatusResolved True (Json j)) mo ao s) = Connected) \<and>
   failCount (updateSpeed v so s) = failCount s \<and>
   statusEl_text (updateSpeed v so s) = statusEl_text s \<and>
   (m \<noteq> ''manual'' \<longrightarrow>
      failCount (switchMode m mo ao s) = failCount s \<and>
      statusEl_text (switchMode m mo ao s) = statusEl_text s) \<and>
   failCount (switchMode ''manual'' mo (Resolved False) s) = failCount s \<and>
   statusEl_text (switchMode ''manual'' mo (Resolved False) s) = statusEl_text s"
proof -
  have mv: "currentMode s = ''manual'' \<longrightarrow>
      failCount (move d (Resolved True) s) = 0 \<and>
      statusEl_text (move d (Resolved True) s) = Connected"
    by (simp add: move_def move_resume_ok)
  have poll: "battery j = Val b \<longrightarrow>
      failCount (fst (fetchStatus_settled (StatusResolved True (Json j)) s)) = 0 \<and>
      statusEl_text (fst (fetchStatus_settled (StatusResolved True (Json j)) s)) = Connected"
    by (simp add: settled_success)
  have full: "battery j = Val b \<and> ao \<noteq> Rejected \<longrightarrow>
      failCount (fetchStatus (StatusResolved True (Json j)) mo ao s) = 0 \<and>
      statusEl_text (fetchStatus (StatusResolved True (Json j)) mo ao s) = Connected"
    using fetchStatus_success_connectivity by blast
  have other: "m \<noteq> ''manual'' \<longrightarrow>
      failCount (switchMode m mo ao s) = failCount s \<and>
      statusEl_text (switchMode m mo ao s) = statusEl_text s"
    by (simp add: switchMode_def switchMode_resume_def switchMode_begin_frame
        split: outcome.splits)
  have man: "failCount (switchMode ''manual'' mo (Resolved False) s) = failCount s"
    "statusEl_text (switchMode ''manual'' mo (Resolved False) s) = statusEl_text s"
    by (simp_all add: switchMode_def switchMode_resume_def move_def move_resume_not_ok
        move_begin_frame switchMode_begin_frame split: outcome.splits)
  show ?thesis
    using mv poll full other man by (simp only: updateSpeed_frame simp_thms)
qed

theorem success_resets_failures_witness:
  "failCount down = 4 \<and> statusEl_text down = Disconnected \<and>
   failCount (move ''left'' (Resolved True) down) = 0 \<and>
   statusEl_text (move ''left'' (Resolved True) down) = Connected \<and>
   failCount (fetchStatus (StatusResolved True (Json (reading Null))) Rejected (Resolved True) down) = 0 \<and>
   statusEl_text (fetchStatus (StatusResolved True (Json (reading Null))) Rejected (Resolved True) down)
     = Connected \<and>
   failCount (switchMode ''autonomous'' Rejected (Resolved True) down) = 4"
proof -
  have d: "failCount down = 4" "statusEl_text down = Disconnected" "currentMode down = ''manual''"
    by code_simp+
  have b: "battery (reading Null) = Val (37 / 5)"
    by (simp add: reading_def)
  show ?thesis
    using success_resets_failures [where s = down and d = "''left''" and j = "reading Null"
        and b = "37 / 5" and ao = "Resolved True" and mo = Rejected and v = "[]"
        and so = Rejected and m = "''autonomous''"]
    by (simp add: d b)
qed

text \<open>
  The claim as stated counts the mode change and the speed change among the requests whose
  success reconnects. On a disconnected page both succeed and the page stays disconnected
  with four failures counted.
\<close>

theorem mode_and_speed_success_keep_failures:
  "failCount (updateSpeed ''5'' (Resolved True) down) = 4 \<and>
   statusEl_text (updateSpeed ''5'' (Resolved True) down) = Disconnected \<and>
   failCount (switchMode ''autonomous'' (Resolved True) (Resolved True) down) = 4 \<and>
   statusEl_text (switchMode ''autonomous'' (Resolved True) (Resolved True) down) = Disconnected"
  by code_simp

text \<open>A rejected poll and a rejected movement command each count one failure.\<close>

lemma rejected_requests_count_once:
  "fetchStatus StatusRejected mo ao s =
     updateConnectionStatus False (fetch (url s ''/status'') s)"
  "currentMode s = ''manual'' \<Longrightarrow>
     move d Rejected s = updateConnectionStatus False (move_begin d s)"
  by (simp_all add: fetchStatus_def fetchStatus_settled_def move_def move_resume_def)

text \<open>What a turn does to the failure count, the status text and the signal text.\<close>

lemma handle_failure:
  "counts_as g = Failure \<Longrightarrow> handle g t = updateConnectionStatus False t"
proof (cases g)
  case (StatusAnswered so)
  assume "counts_as g = Failure"
  with StatusAnswered show ?thesis
    by (cases so)
       (auto simp add: fetchStatus_settled_def split: if_splits body.splits field.splits)
next
  case (ActionAnswered ao)
  assume "counts_as g = Failure"
  with ActionAnswered show ?thesis
    by (cases ao) (auto simp add: move_resume_def split: if_splits)
qed simp_all

lemma handle_success:
  assumes "counts_as g = Success"
  shows "failCount (handle g t) = 0" and "statusEl_text (handle g t) = Connected"
proof -
  have "failCount (handle g t) = 0 \<and> statusEl_text (handle g t) = Connected"
  proof (cases g)
    case (StatusAnswered so)
    with assms show ?thesis
      by (cases so)
         (auto simp add: settled_success split: if_splits body.splits field.splits)
  next
    case (ActionAnswered ao)
    with assms show ?thesis
      by (cases ao) (auto simp add: move_resume_ok split: if_splits)
  qed (use assms in simp_all)
  then show "failCount (handle g t) = 0" and "statusEl_text (handle g t) = Connected"
    by simp_all
qed

lemma handle_neither:
  assumes "counts_as g = Neither"
  shows "failCount (handle g t) = failCount t"
    and "signalEl (handle g t) = signalEl t"
    and "statusEl_text (handle g t) = statusEl_text t \<or> statusEl_text (handle g t) = Connecting"
proof -
  have "failCount (handle g t) = failCount t \<and> signalEl (handle g t) = signalEl t \<and>
    (statusEl_text (handle g t) = statusEl_text t \<or> statusEl_text (handle g t) = Connecting)"
  proof (cases g)
    case (StatusAnswered so)
    with assms show ?thesis
      by (cases so)
         (auto simp add: fetchStatus_settled_def split: if_splits body.splits field.splits)
  next
    case (ActionAnswered ao)
    with assms show ?thesis
      by (cases ao) (auto simp add: move_resume_not_ok split: if_splits)
  next
    case ConnectClicked
    then show ?thesis
      using connectRover_issue_frame [of t] by simp
  qed (simp_all add: switchMode_begin_frame move_issue_frame updateSpeed_frame
        updateSpeed_signalEl fetch_frame keydown_issue_frame switchMode_settled_frame
        emergencyStop_settled_frame)
  then show "failCount (handle g t) = failCount t"
    and "signalEl (handle g t) = signalEl t"
    and "statusEl_text (handle g t) = statusEl_text t \<or> statusEl_text (handle g t) = Connecting"
    by simp_all
qed

lemma handle_failCount:
  "failCount (handle g t) =
     (case counts_as g of Failure \<Rightarrow> Suc (failCount t) | Success \<Rightarrow> 0 | Neither \<Rightarrow> failCount t)"
  by (cases "counts_as g")
     (simp_all add: handle_failure handle_success handle_neither updateConnectionStatus_False)

lemma handle_all_failCount:
  "failCount (handle_all gs s) = streak gs (failCount s)"
  by (induction gs arbitrary: s) (simp_all add: handle_failCount)

lemma handle_shown_disconnected:
  assumes "statusEl_text t = Disconnected \<longrightarrow> 4 \<le> failCount t"
  shows "statusEl_text (handle g t) = Disconnected \<longrightarrow> 4 \<le> failCount (handle g t)"
proof (cases "counts_as g")
  case Failure
  then show ?thesis
    using assms by (auto simp add: handle_failure updateConnectionStatus_False)
next
  case Success
  then show ?thesis
    by (simp add: handle_success)
next
  case Neither
  then show ?thesis
    using assms handle_neither [OF Neither, of t] by auto
qed

lemma handle_all_shown_disconnected:
  "(statusEl_text s = Disconnected \<longrightarrow> 4 \<le> failCount s) \<Longrightarrow>
   statusEl_text (handle_all gs s) = Disconnected \<longrightarrow> 4 \<le> failCount (handle_all gs s)"
proof (induction gs arbitrary: s)
  case Nil
  then show ?case by simp
next
  case (Cons g gs)
  show ?case
    using Cons.IH [OF handle_shown_disconnected [OF Cons.prems]] by simp
qed

text \<open>
  C5 (as amended). Count as a failure every rejected \<open>/status\<close> or \<open>/action\<close> request and
  every 2xx \<open>/status\<close> answer without a usable body, and as a success every other 2xx
  answer to one of the two requests. Start from a page shown Connected with no failure
  counted, and let the handlers run in any order. Then the failure count is the number of
  failures since the last success; the page is shown Disconnected only when that number
  is at least 4; a failure that brings the number to 1, 2 or 3 leaves the status text and
  the signal text untouched; the failure that brings it to 4, and each later one, shows
  Disconnected and blanks the signal text. Everything else (answers that are not 2xx,
  mode and speed requests and their answers, clicks and keys) leaves the count as it is
  and never turns the display to Disconnected.
\<close>

theorem disconnected_after_fourth_failure:
  assumes "failCount s = 0" and "statusEl_text s = Connected"
  shows "failCount (handle_all gs s) = streak gs 0 \<and>
         (statusEl_text (handle_all gs s) = Disconnected \<longrightarrow> 4 \<le> streak gs 0) \<and>
         (counts_as g = Failure \<and> streak gs 0 < 3 \<longrightarrow>
            statusEl_text (handle g (handle_all gs s)) = statusEl_text (handle_all gs s) \<and>
            signalEl (handle g (handle_all gs s)) = signalEl (handle_all gs s)) \<and>
         (counts_as g = Failure \<and> 3 \<le> streak gs 0 \<longrightarrow>
            statusEl_text (handle g (handle_all gs s)) = Disconnected \<and>
            signalEl (handle g (handle_all gs s)) = SignalBlank) \<and>
         (counts_as g = Neither \<longrightarrow>
            failCount (handle g (handle_all gs s)) = streak gs 0 \<and>
            (statusEl_text (handle g (handle_all gs s)) = Disconnected \<longrightarrow>
               statusEl_text (handle_all gs s) = Disconnected))"
proof -
  let ?t = "handle_all gs s"
  have c: "failCount ?t = streak gs 0"
    using assms(1) handle_all_failCount [of gs s] by simp
  have d: "statusEl_text ?t = Disconnected \<longrightarrow> 4 \<le> streak gs 0"
    using handle_all_shown_disconnected [of s gs] assms c by simp
  have f: "counts_as g = Failure \<longrightarrow>
      statusEl_text (handle g ?t) = (if streak gs 0 < 3 then statusEl_text ?t else Disconnected) \<and>
      signalEl (handle g ?t) = (if streak gs 0 < 3 then signalEl ?t else SignalBlank)"
    by (auto simp add: handle_failure updateConnectionStatus_False c)
  show ?thesis
    using c d f handle_neither [of g ?t] by auto
qed

text \<open>
  A rejected poll, a rejected forward command and a poll answered with a body that is not
  JSON, with a speed request and a 404 poll in between: three failures, still Connected.
  A 404 answer to a fourth poll changes nothing; its rejection disconnects.
\<close>

theorem disconnected_after_fourth_failure_witness:
  "failCount (handle_all
      [TimerFired, StatusAnswered StatusRejected,
       MoveCalled ''forward'', ActionAnswered Rejected,
       SpeedCalled ''5'' (Resolved True),
       TimerFired, StatusAnswered (StatusResolved False Unparsable),
       TimerFired, StatusAnswered (StatusResolved True Unparsable), TimerFired] steady) = 3 \<and>
   statusEl_text (handle_all
      [TimerFired, StatusAnswered StatusRejected,
       MoveCalled ''forward'', ActionAnswered Rejected,
       SpeedCalled ''5'' (Resolved True),
       TimerFired, StatusAnswered (StatusResolved False Unparsable),
       TimerFired, StatusAnswered (StatusResolved True Unparsable), TimerFired] steady)
     = Connected \<and>
   statusEl_text (handle (StatusAnswered (StatusResolved False Unparsable)) (handle_all
      [TimerFired, StatusAnswered StatusRejected,
       MoveCalled ''forward'', ActionAnswered Rejected,
       SpeedCalled ''5'' (Resolved True),
       TimerFired, StatusAnswered (StatusResolved False Unparsable),
       TimerFired, StatusAnswered (StatusResolved True Unparsable), TimerFired] steady))
     = Connected \<and>
   statusEl_text (handle (StatusAnswered StatusRejected) (handle_all
      [TimerFired, StatusAnswered StatusRejected,
       MoveCalled ''forward'', ActionAnswered Rejected,
       SpeedCalled ''5'' (Resolved True),
       TimerFired, StatusAnswered (StatusResolved False Unparsable),
       TimerFired, StatusAnswered (StatusResolved True Unparsable), TimerFired] steady))
     = Disconnected \<and>
   signalEl (handle (StatusAnswered StatusRejected) (handle_all
      [TimerFired, StatusAnswered StatusRejected,
       MoveCalled ''forward'', ActionAnswered Rejected,
       SpeedCalled ''5'' (Resolved True),
       TimerFired, StatusAnswered (StatusResolved False Unparsable),
       TimerFired, StatusAnswered (StatusResolved True Unparsable), TimerFired] steady))
     = SignalBlank \<and>
   statusEl_text (handle (ActionAnswered Rejected)
      (handle_all [TimerFired, StatusAnswered StatusRejected, MoveCalled ''forward''] steady))
     = Connected \<and>
   statusEl_text (handle_all
      [StatusAnswered StatusRejected, StatusAnswered StatusRejected,
       StatusAnswered StatusRejected, StatusAnswered StatusRejected] steady) = Disconnected \<and>
   failCount (handle_all
      [StatusAnswered StatusRejected, StatusAnswered StatusRejected,
       StatusAnswered StatusRejected, StatusAnswered StatusRejected] steady) = 4"
proof -
  let ?gs = "[TimerFired, StatusAnswered StatusRejected,
       MoveCalled ''forward'', ActionAnswered Rejected,
       SpeedCalled ''5'' (Resolved True),
       TimerFired, StatusAnswered (StatusResolved False Unparsable),
       TimerFired, StatusAnswered (StatusResolved True Unparsable), TimerFired]"
  let ?hs = "[TimerFired, StatusAnswered StatusRejected, MoveCalled ''forward'']"
  let ?ds = "[StatusAnswered StatusRejected, StatusAnswered StatusRejected,
       StatusAnswered StatusRejected, StatusAnswered StatusRejected]"
  have h: "failCount steady = 0" "statusEl_text steady = Connected"
    by (simp_all add: steady_def updateConnectionStatus_True)
  have n: "streak ?gs 0 = 3" "streak ?hs 0 = 1" "streak ?ds 0 = 4"
    by simp_all
  have v: "counts_as (StatusAnswered StatusRejected) = Failure"
    "counts_as (ActionAnswered Rejected) = Failure"
    "counts_as (StatusAnswered (StatusResolved False Unparsable)) = Neither"
    by simp_all
  have c: "statusEl_text (handle_all ?gs steady) = Connected"
    "statusEl_text (handle_all ?hs steady) = Connected"
    "statusEl_text (handle (StatusAnswered (StatusResolved False Unparsable))
       (handle_all ?gs steady)) = Connected"
    "statusEl_text (handle_all ?ds steady) = Disconnected"
    by code_simp+
  show ?thesis
    using disconnected_after_fourth_failure [OF h, of ?gs "StatusAnswered StatusRejected"]
      disconnected_after_fourth_failure [OF h, of ?gs
        "StatusAnswered (StatusResolved False Unparsable)"]
      disconnected_after_fourth_failure [OF h, of ?hs "ActionAnswered Rejected"]
      disconnected_after_fourth_failure [OF h, of ?ds "ActionAnswered Rejected"]
    by (simp add: n v c del: handle_all.simps handle.simps streak.simps)
qed

text \<open>
  The claim as stated counts consecutive failed requests. A successful speed request
  between two pairs of rejected polls does not reset the count: the page, still Connected
  after the speed request, is shown Disconnected after the second rejected poll that
  follows it. And four polls in a row answered 404 count nothing: the page stays Connected.
\<close>

theorem disconnected_after_two_consecutive_failures:
  "statusEl_text steady = Connected \<and> failCount steady = 0 \<and>
   statusEl_text (run
      [Poll StatusRejected Rejected Rejected, Poll StatusRejected Rejected Rejected,
       CallUpdateSpeed ''5'' (Resolved True)] steady) = Connected \<and>
   statusEl_text (run
      [Poll StatusRejected Rejected Rejected, Poll StatusRejected Rejected Rejected,
       CallUpdateSpeed ''5'' (Resolved True),
       Poll StatusRejected Rejected Rejected, Poll StatusRejected Rejected Rejected] steady)
     = Disconnected \<and>
   statusEl_text (run
      [Poll (StatusResolved False Unparsable) Rejected Rejected,
       Poll (StatusResolved False Unparsable) Rejected Rejected,
       Poll (StatusResolved False Unparsable) Rejected Rejected,
       Poll (StatusResolved False Unparsable) Rejected Rejected] steady) = Connected \<and>
   failCount (run
      [Poll (StatusResolved False Unparsable) Rejected Rejected,
       Poll (StatusResolved False Unparsable) Rejected Rejected,
       Poll (StatusResolved False Unparsable) Rejected Rejected,
       Poll (StatusResolved False Unparsable) Rejected Rejected] steady) = 0"
  by code_simp

section \<open>Telemetry\<close>

lemma fetchStatus_after_settled:
  "distanceValue_color (fetchStatus so mo ao s) =
     distanceValue_color (fst (fetchStatus_settled so (fetch (url s ''/status'') s)))"
  "batteryEl (fetchStatus so mo ao s) =
     batteryEl (fst (fetchStatus_settled so (fetch (url s ''/status'') s)))"
  "currentMode (fetchStatus so mo ao s) =
     currentMode (fst (fetchStatus_settled so (fetch (url s ''/status'') s)))"
  by (simp_all add: fetchStatus_def switchMode_resume_frame split: prod.splits option.splits)

lemma settled_color:
  assumes "battery j = Val b"
  shows "distanceValue_color (fst (fetchStatus_settled (StatusResolved True (Json j)) s)) =
     (case distance j of
        Val d \<Rightarrow> if currentMode s = ''autonomous'' \<and> 0 < d then distanceColor d
                 else distanceValue_color s
      | _ \<Rightarrow> distanceValue_color s)"
  using assms
  by (simp add: fetchStatus_settled_def Let_def updateConnectionStatus_frame
      switchMode_begin_frame showDistance_color split: option.splits field.splits)

text \<open>
  C7 (as amended). On a poll answered 2xx with a numeric \<open>battery\<close>, the colour of the
  distance display is decided only while the mode is autonomous and only for a distance
  above 0: red below 15, orange from 15 up to but not including 35, green from 35 on. For
  a distance that is \<open>null\<close>, absent, 0 or negative, and in every other mode, the colour
  stays what it was.
\<close>

theorem distance_colour:
  assumes "battery j = Val b"
  shows "distanceValue_color (fetchStatus (StatusResolved True (Json j)) mo ao s) =
     (case distance j of
        Val d \<Rightarrow>
          if currentMode s = ''autonomous'' \<and> 0 < d then
            (if d < 15 then ''#f56565'' else if d < 35 then ''#f6ad55'' else ''#48bb78'')
          else distanceValue_color s
      | _ \<Rightarrow> distanceValue_color s)"
  by (simp add: fetchStatus_after_settled settled_color [OF assms] fetch_frame distanceColor_def
      split: field.splits)

theorem distance_colour_witness:
  "distanceValue_color (fetchStatus (StatusResolved True (Json (reading (Val 10)))) Rejected Rejected
      (switchMode ''autonomous'' (Resolved True) Rejected fresh)) = ''#f56565'' \<and>
   distanceValue_color (fetchStatus (StatusResolved True (Json (reading (Val 20)))) Rejected Rejected
      (switchMode ''autonomous'' (Resolved True) Rejected fresh)) = ''#f6ad55'' \<and>
   distanceValue_color (fetchStatus (StatusResolved True (Json (reading (Val 35)))) Rejected Rejected
      (switchMode ''autonomous'' (Resolved True) Rejected fresh)) = ''#48bb78'' \<and>
   distanceValue_color (fetchStatus (StatusResolved True (Json (reading Null))) Rejected Rejected
      (switchMode ''autonomous'' (Resolved True) Rejected fresh)) = []"
proof -
  let ?s = "switchMode ''autonomous'' (Resolved True) Rejected fresh"
  have b: "\<And>d. battery (reading d) = Val (37 / 5)"
    by (simp add: reading_def)
  have m: "currentMode ?s = ''autonomous''"
    by (rule switchMode_currentMode)
  have c: "distanceValue_color ?s = []"
    by code_simp
  show ?thesis
    using distance_colour [OF b, of "Val 10" Rejected Rejected ?s]
      distance_colour [OF b, of "Val 20" Rejected Rejected ?s]
      distance_colour [OF b, of "Val 35" Rejected Rejected ?s]
      distance_colour [OF b, of Null Rejected Rejected ?s]
    by (simp add: m c reading_def)
qed

text \<open>
  The claim as stated asks for red at every distance from 0 to below 15. At distance 0, in
  autonomous mode, line 217 skips the colour and the display keeps the colour it had (here
  the page's initial, empty one).
\<close>

theorem distance_zero_not_red:
  "currentMode (switchMode ''autonomous'' (Resolved True) Rejected fresh) = ''autonomous'' \<and>
   distanceValue_color (fetchStatus (StatusResolved True (Json (reading (Val 0)))) Rejected Rejected
      (switchMode ''autonomous'' (Resolved True) Rejected fresh)) = []"
  by code_simp

lemma fetchStatus_failed:
  "fetchStatus StatusRejected mo ao s = updateConnectionStatus False (fetch (url s ''/status'') s)"
  "fetchStatus (StatusResolved True Unparsable) mo ao s =
     updateConnectionStatus False (fetch (url s ''/status'') s)"
  "battery j = Absent \<or> battery j = Null \<Longrightarrow>
     fetchStatus (StatusResolved True (Json j)) mo ao s =
       updateConnectionStatus False (fetch (url s ''/status'') s)"
  "fetchStatus (StatusResolved False b) mo ao s = fetch (url s ''/status'') s"
  by (auto simp add: fetchStatus_def fetchStatus_settled_def)

text \<open>
  C9 (as amended). A \<open>/status\<close> request that is rejected (network error, timeout), or is
  answered 2xx with a body that is not a JSON object, or with an object that has no
  \<open>battery\<close> number, counts one failure and leaves the displayed battery, action and
  distance, and the mode, as they were; the signal text is blanked once the count exceeds
  3 and is kept otherwise. An answer that is not 2xx changes nothing but the request log:
  no failure is counted. An answer 2xx with a \<open>battery\<close> number is displayed and counted
  as a success, whichever of the other fields are missing.
\<close>

theorem failed_poll_keeps_telemetry:
  "(so = StatusRejected \<or> so = StatusResolved True Unparsable \<or>
    (\<exists>j. so = StatusResolved True (Json j) \<and> (battery j = Absent \<or> battery j = Null)) \<longrightarrow>
      failCount (fetchStatus so mo ao s) = failCount s + 1 \<and>
      batteryEl (fetchStatus so mo ao s) = batteryEl s \<and>
      actionEl (fetchStatus so mo ao s) = actionEl s \<and>
      distanceValue (fetchStatus so mo ao s) = distanceValue s \<and>
      distanceInfo (fetchStatus so mo ao s) = distanceInfo s \<and>
      distanceValue_color (fetchStatus so mo ao s) = distanceValue_color s \<and>
      currentMode (fetchStatus so mo ao s) = currentMode s \<and>
      signalEl (fetchStatus so mo ao s) =
        (if failCount s + 1 > 3 then SignalBlank else signalEl s)) \<and>
   fetchStatus (StatusResolved False b) mo ao s =
     s\<lparr>requests := requests s @ [url s ''/status'']\<rparr> \<and>
   (battery j = Val v \<longrightarrow>
      batteryEl (fetchStatus (StatusResolved True (Json j)) mo ao s) = BatteryV v \<and>
      failCount (fst (fetchStatus_settled (StatusResolved True (Json j))
                        (fetch (url s ''/status'') s))) = 0 \<and>
      signalEl (fst (fetchStatus_settled (StatusResolved True (Json j))
                        (fetch (url s ''/status'') s))) = SignalDbm (rssi j))"
proof -
  have non2xx: "fetchStatus (StatusResolved False b) mo ao s =
      s\<lparr>requests := requests s @ [url s ''/status'']\<rparr>"
    by (simp add: fetchStatus_failed fetch_def)
  have thrown: "fetchStatus so mo ao s = updateConnectionStatus False (fetch (url s ''/status'') s)"
    if "so = StatusRejected \<or> so = StatusResolved True Unparsable \<or>
      (\<exists>j. so = StatusResolved True (Json j) \<and> (battery j = Absent \<or> battery j = Null))"
    using that fetchStatus_failed(1-3) by metis
  have shown: "battery j = Val v \<longrightarrow>
      batteryEl (fetchStatus (StatusResolved True (Json j)) mo ao s) = BatteryV v \<and>
      failCount (fst (fetchStatus_settled (StatusResolved True (Json j))
                        (fetch (url s ''/status'') s))) = 0 \<and>
      signalEl (fst (fetchStatus_settled (StatusResolved True (Json j))
                        (fetch (url s ''/status'') s))) = SignalDbm (rssi j)"
    by (simp add: fetchStatus_after_settled settled_success)
  show ?thesis
    using non2xx shown
    by (simp add: thrown updateConnectionStatus_frame updateConnectionStatus_False fetch_frame)
qed

theorem failed_poll_keeps_telemetry_witness:
  "failCount (fetchStatus StatusRejected Rejected Rejected down) = 5 \<and>
   batteryEl (fetchStatus StatusRejected Rejected Rejected down) = BatteryInitial \<and>
   signalEl (fetchStatus StatusRejected Rejected Rejected down) = SignalBlank \<and>
   batteryEl (fetchStatus (StatusResolved True (Json (reading Absent))) Rejected Rejected down)
     = BatteryV (37 / 5)"
proof -
  have d: "failCount down = 4" "batteryEl down = BatteryInitial"
    by code_simp+
  have b: "battery (reading Absent) = Val (37 / 5)"
    by (simp add: reading_def)
  show ?thesis
    using failed_poll_keeps_telemetry [where so = StatusRejected and mo = Rejected
        and ao = Rejected and s = down and j = "reading Absent" and v = "37 / 5"]
    by (simp add: d b)
qed

text \<open>
  The claim as stated treats every answer that is not 2xx, and every body with a field
  missing, as a failure that keeps the old telemetry. A 404 answer to the first poll
  leaves the count at 0; a 2xx body without \<open>rssi\<close> replaces the displayed battery and
  leaves the count at 0 as well.
\<close>

theorem non_2xx_poll_not_counted:
  "failCount fresh = 0 \<and>
   failCount (fetchStatus (StatusResolved False Unparsable) Rejected Rejected fresh) = 0 \<and>
   batteryEl fresh = BatteryInitial \<and>
   batteryEl (fetchStatus (StatusResolved True (Json (reading Null\<lparr>rssi := Absent\<rparr>)))
      Rejected Rejected fresh) = BatteryV (37 / 5) \<and>
   failCount (fetchStatus (StatusResolved True (Json (reading Null\<lparr>rssi := Absent\<rparr>)))
      Rejected Rejected fresh) = 0"
  by code_simp

section \<open>The mode along every run\<close>

lemma settled_currentMode:
  "currentMode (fst (fetchStatus_settled so s)) =
     (case so of
        StatusResolved ok (Json j) \<Rightarrow>
          (case (ok, battery j, mode j) of
             (True, Val b, Val m) \<Rightarrow> if m \<noteq> [] then m else currentMode s
           | _ \<Rightarrow> currentMode s)
      | _ \<Rightarrow> currentMode s)"
  by (auto simp add: fetchStatus_settled_def Let_def modeToSync_def updateConnectionStatus_frame
      switchMode_begin_effect showDistance_frame
      split: status_outcome.splits body.splits field.splits bool.splits)

lemma fetchStatus_currentMode:
  "currentMode (fetchStatus so mo ao s) =
     (case so of
        StatusResolved ok (Json j) \<Rightarrow>
          (case (ok, battery j, mode j) of
             (True, Val b, Val m) \<Rightarrow> if m \<noteq> [] then m else currentMode s
           | _ \<Rightarrow> currentMode s)
      | _ \<Rightarrow> currentMode s)"
  by (simp add: fetchStatus_after_settled settled_currentMode fetch_frame
      split: status_outcome.splits body.splits field.splits bool.splits)

lemma fetchStatus_validMode:
  "validMode (currentMode s) \<Longrightarrow> reportsValidMode so \<Longrightarrow>
     validMode (currentMode (fetchStatus so mo ao s))"
  by (auto simp add: fetchStatus_currentMode reportsValidMode_def
      split: status_outcome.splits body.splits field.splits bool.splits)

lemma connectRover_validMode:
  "validMode (currentMode s) \<Longrightarrow> reportsValidMode so \<Longrightarrow>
     validMode (currentMode (connectRover so mo ao s))"
  by (simp add: connectRover_def Let_def fetchStatus_validMode)

lemma keydown_validMode:
  "validMode (currentMode s) \<Longrightarrow> validMode (currentMode (keydown k c mo ao1 ao2 s))"
  by (auto simp add: keydown_def emergencyStop_currentMode switchMode_currentMode move_frame
      validMode_def)

lemma step_validMode:
  "validMode (currentMode s) \<Longrightarrow> event_ok e \<Longrightarrow> validMode (currentMode (step e s))"
  by (cases e)
     (simp_all add: connectRover_validMode fetchStatus_validMode keydown_validMode
        switchMode_currentMode move_frame updateSpeed_frame)

lemma run_validMode:
  "validMode (currentMode s) \<Longrightarrow> list_all event_ok evs \<Longrightarrow>
     validMode (currentMode (run evs s))"
  by (induction evs arbitrary: s) (simp_all add: step_validMode)

lemma startup_validMode: "validMode (currentMode (startup mo ao page))"
  by (simp add: startup_def domContentLoaded_def script_globals_def Let_def
      switchMode_currentMode validMode_def split: option.splits)

text \<open>
  C10 (as amended). Start-up leaves the mode manual or autonomous, whatever the page and
  its storage hold. \<open>switchMode(m)\<close> makes the mode \<open>m\<close>, so it keeps the mode among the
  two values when it is called with one of them. A poll keeps it there when the rover
  reports manual, autonomous, the empty string or no mode. Hence along every run in which
  the controls call \<open>switchMode\<close> with one of the two values and the rover reports no
  other mode, the mode is manual or autonomous in every state reached.
\<close>

theorem mode_stays_valid:
  "validMode (currentMode (startup mo ao page)) \<and>
   currentMode (switchMode m mo' ao' s) = m \<and>
   (validMode (currentMode s) \<and> reportsValidMode so \<longrightarrow>
      validMode (currentMode (fetchStatus so mo' ao' s))) \<and>
   (list_all event_ok evs \<longrightarrow> validMode (currentMode (run evs (startup mo ao page))))"
  using startup_validMode fetchStatus_validMode run_validMode switchMode_currentMode
  by blast

theorem mode_stays_valid_witness:
  "validMode (currentMode (fetchStatus
      (StatusResolved True (Json (reading Null\<lparr>mode := Val ''autonomous''\<rparr>)))
      (Resolved True) Rejected fresh)) \<and>
   currentMode (run
      [Poll (StatusResolved True (Json (reading Null\<lparr>mode := Val ''autonomous''\<rparr>)))
         (Resolved True) Rejected,
       CallMove ''forward'' Rejected,
       KeyDown ''Escape'' False (Resolved True) (Resolved True) (Resolved True),
       CallSwitchMode ''autonomous'' Rejected Rejected]
      (startup Rejected Rejected blank_page)) = ''autonomous'' \<and>
   validMode (currentMode (run
      [Poll (StatusResolved True (Json (reading Null\<lparr>mode := Val ''autonomous''\<rparr>)))
         (Resolved True) Rejected,
       CallMove ''forward'' Rejected,
       KeyDown ''Escape'' False (Resolved True) (Resolved True) (Resolved True),
       CallSwitchMode ''autonomous'' Rejected Rejected]
      (startup Rejected Rejected blank_page)))"
proof -
  let ?so = "StatusResolved True (Json (reading Null\<lparr>mode := Val ''autonomous''\<rparr>))"
  let ?evs = "[Poll ?so (Resolved True) Rejected,
       CallMove ''forward'' Rejected,
       KeyDown ''Escape'' False (Resolved True) (Resolved True) (Resolved True),
       CallSwitchMode ''autonomous'' Rejected Rejected]"
  have ok: "list_all event_ok ?evs"
    by (simp add: reportsValidMode_def reading_def validMode_def)
  have so: "reportsValidMode ?so"
    by (simp add: reportsValidMode_def reading_def validMode_def)
  have f: "validMode (currentMode fresh)"
    by code_simp
  have v: "validMode (currentMode (fetchStatus ?so (Resolved True) Rejected fresh)) \<and>
      validMode (currentMode (run ?evs (startup Rejected Rejected blank_page)))"
    using mode_stays_valid [where evs = ?evs and mo = Rejected and ao = Rejected
        and page = blank_page and s = fresh and so = ?so and mo' = "Resolved True"
        and ao' = Rejected] ok so f
    by blast
  have "currentMode (run ?evs (startup Rejected Rejected blank_page)) = ''autonomous''"
    by code_simp
  with v show ?thesis
    by simp
qed

text \<open>
  The claim as stated holds of every reachable state. Line 230 hands whatever non-empty
  mode the rover reports to \<open>switchMode\<close>: after one poll that reports the mode "idle",
  the mode of the page is "idle".
\<close>

theorem poll_copies_unknown_mode:
  "currentMode fresh = ''manual'' \<and>
   currentMode (fetchStatus (StatusResolved True (Json idle_report))
      (Resolved True) (Resolved True) fresh) = ''idle''"
  by code_simp

section \<open>Connecting\<close>

lemma dropWhile_all_iff:
  "(\<forall>x\<in>set (dropWhile P v). P x) \<longleftrightarrow> (\<forall>x\<in>set v. P x)"
proof
  assume a: "\<forall>x\<in>set (dropWhile P v). P x"
  have "dropWhile P v = []"
  proof (rule ccontr)
    assume n: "dropWhile P v \<noteq> []"
    then have "\<not> P (hd (dropWhile P v))" by (rule hd_dropWhile)
    moreover have "hd (dropWhile P v) \<in> set (dropWhile P v)" using n by simp
    ultimately show False using a by blast
  qed
  then show "\<forall>x\<in>set v. P x" by simp
next
  assume "\<forall>x\<in>set v. P x"
  then show "\<forall>x\<in>set (dropWhile P v). P x"
    by (meson set_dropWhileD)
qed

lemma trim_Nil_iff: "trim v = [] \<longleftrightarrow> (\<forall>c\<in>set v. isWhiteSpace c)"
  by (simp add: trim_def dropWhile_all_iff)

text \<open>
  An empty or blank address field: the alert is shown, nothing is requested and nothing is
  stored in \<open>localStorage\<close>, but the address in use has become the empty string.
\<close>

lemma connectRover_blank:
  "(\<forall>c\<in>set (ipInput s). isWhiteSpace c) \<Longrightarrow>
     connectRover so mo ao s =
       s\<lparr>roverIP := [], alerts := alerts s @ [''Please enter a valid IP address!'']\<rparr>"
  by (simp add: connectRover_def Let_def trim_Nil_iff)

text \<open>
  Any other address field: the trimmed text becomes the address in use and is stored, the
  status reads Connecting, and a poll of the new address follows at once.
\<close>

lemma connectRover_address:
  assumes "\<not> (\<forall>c\<in>set (ipInput s). isWhiteSpace c)"
  shows "connectRover so mo ao s =
           fetchStatus so mo ao
             (s\<lparr>roverIP := trim (ipInput s),
                localStorage := (localStorage s)(''roverIP'' \<mapsto> trim (ipInput s)),
                statusEl_text := Connecting, statusEl_className := ''status''\<rparr>)"
proof -
  have "trim (ipInput s) \<noteq> []"
    using assms by (simp only: trim_Nil_iff not_False_eq_True)
  then show ?thesis
    by (simp add: connectRover_def Let_def)
qed

lemma connectRover_example:
  "roverIP (connectRover StatusRejected Rejected Rejected (fresh\<lparr>ipInput := ''  10.0.0.5 ''\<rparr>))
     = ''10.0.0.5'' \<and>
   localStorage (connectRover StatusRejected Rejected Rejected
      (fresh\<lparr>ipInput := ''  10.0.0.5 ''\<rparr>)) ''roverIP'' = Some ''10.0.0.5'' \<and>
   requests (connectRover StatusRejected Rejected Rejected (fresh\<lparr>ipInput := ''  10.0.0.5 ''\<rparr>))
     = [''http://10.0.0.5/status'']"
  by code_simp

text \<open>
  C8 (the code departs from the claim). With three spaces in the address field and the
  address 192.168.1.100 in use, \<open>connectRover()\<close> shows the alert, requests nothing and
  stores nothing, as claimed; but line 55 has already replaced the address in use by the
  empty string, so the next poll of the timer goes to \<open>http:///status\<close>.
\<close>

theorem connect_blank_overwrites_address:
  "roverIP fresh = ''192.168.1.100'' \<and>
   roverIP (connectRover StatusRejected Rejected Rejected (fresh\<lparr>ipInput := ''   ''\<rparr>)) = [] \<and>
   alerts (connectRover StatusRejected Rejected Rejected (fresh\<lparr>ipInput := ''   ''\<rparr>)) =
     [''Please enter a valid IP address!''] \<and>
   requests (connectRover StatusRejected Rejected Rejected (fresh\<lparr>ipInput := ''   ''\<rparr>)) = [] \<and>
   localStorage (connectRover StatusRejected Rejected Rejected (fresh\<lparr>ipInput := ''   ''\<rparr>))
     ''roverIP'' = None \<and>
   requests (fetchStatus StatusRejected Rejected Rejected
      (connectRover StatusRejected Rejected Rejected (fresh\<lparr>ipInput := ''   ''\<rparr>))) =
     [''http:///status'']"
  by code_simp

end
